theory Spec2Isabelle
  imports Main
begin

section \<open>The deSEC provider of dnscontrol: data model\<close>

text \<open>
  The development embeds \<^verbatim>\<open>providers/desec/desecProvider.go\<close>. Types that the file
  uses but that are declared elsewhere (the generic record model, the native record
  set, the provider handle) appear with the fields the file reads and writes.
  Go strings are \<open>string\<close>, a nil error is \<open>None\<close>, a slice is a list (the nil slice
  is the empty list), and a Go map that is only looked up is a partial function.
\<close>

type_synonym error = string

text \<open>
  \<^verbatim>\<open>models.RecordKey\<close>: the (label, record type) pair under which the diff engine
  reports a changed group. The planner reads \<^verbatim>\<open>label.NameFQDN\<close> and \<^verbatim>\<open>label.Type\<close>.
\<close>

record RecordKey =
  key_NameFQDN :: string
  key_Type :: string

text \<open>
  Modelled from the spec: \<^verbatim>\<open>models.RecordConfig\<close> is declared outside this file. A generic
  record has a label, a record type, a TTL in seconds (at least 0) and a value;
  \<^verbatim>\<open>rec.GetLabelFQDN()\<close> reads the field \<open>NameFQDN\<close>.
\<close>

record RecordConfig =
  Type :: string
  TTL :: nat
  NameFQDN :: string
  Value :: string

type_synonym Records = "RecordConfig list"

definition GetLabelFQDN :: "RecordConfig \<Rightarrow> string" where
  "GetLabelFQDN rc = NameFQDN rc"

text \<open>\<^verbatim>\<open>models.DomainConfig\<close>: the fields the provider uses.\<close>

record DomainConfig =
  Name :: string
  Records :: Records

text \<open>
  \<^verbatim>\<open>resourceRecord\<close>, the native record set. The delete action fills \<^verbatim>\<open>Type\<close>,
  \<^verbatim>\<open>Subname\<close> and \<^verbatim>\<open>Records\<close>; the TTL keeps Go's zero value there.
\<close>

record resourceRecord =
  rr_Type :: string
  Subname :: string
  rr_Records :: "string list"
  rr_TTL :: nat

text \<open>The closures built by the planner; see the planner section for what they run.\<close>

type_synonym addr = nat

datatype action =
    delete_F addr
  | upsert_F "resourceRecord list"
  | noop_F

text \<open>\<^verbatim>\<open>models.Correction\<close>: a message and a deferred action.\<close>

record Correction =
  Msg :: string
  F :: action

section \<open>Collaborators\<close>

text \<open>
  Functions the file calls but does not define are parameters of the model, collected
  in one record, so that every theorem below holds for each behaviour they may have:
  \<^item> \<open>Punycode\<close>: \<^verbatim>\<open>dc.Punycode()\<close>, which rewrites the configuration in place;
  \<^item> \<open>PostProcessRecords\<close>: \<^verbatim>\<open>models.PostProcessRecords\<close>, in place on the fetched records;
  \<^item> \<open>ChangedGroups\<close>: \<^verbatim>\<open>diff.New(dc).ChangedGroups(existing)\<close>. The Go map it returns
    is given by its entries (key, messages), in the order in which the \<^verbatim>\<open>range\<close>
    statement of the planner visits them; the keys of a Go map are distinct;
  \<^item> \<open>GroupedByKey\<close>: \<^verbatim>\<open>dc.Records.GroupedByKey()\<close>, a map that is only looked up;
  \<^item> \<open>recordsToNative\<close>, \<open>nativeToRecords\<close>: the native record mapper;
  \<^item> \<open>TrimDomainName\<close>: \<^verbatim>\<open>dnsutil.TrimDomainName\<close> of the DNS library;
  \<^item> \<open>getRecords\<close>: the listing request \<^verbatim>\<open>c.getRecords(domain)\<close>.
\<close>

record collaborators =
  Punycode :: "DomainConfig \<Rightarrow> DomainConfig"
  PostProcessRecords :: "Records \<Rightarrow> Records"
  ChangedGroups :: "DomainConfig \<Rightarrow> Records \<Rightarrow> (RecordKey \<times> string list) list"
  GroupedByKey :: "Records \<Rightarrow> RecordKey \<Rightarrow> Records option"
  recordsToNative :: "Records \<Rightarrow> string \<Rightarrow> resourceRecord list"
  nativeToRecords :: "resourceRecord \<Rightarrow> string \<Rightarrow> Records"
  TrimDomainName :: "string \<Rightarrow> string \<Rightarrow> string"
  getRecords :: "string \<Rightarrow> error + resourceRecord list"

section \<open>Capability normalizer\<close>

text \<open>
  A call of \<^verbatim>\<open>printer.Warnf\<close> is recorded with its format string and its arguments,
  in the order the calls are made.
\<close>

datatype fmt_arg = Str string | Num nat

datatype warning = Warnf string "fmt_arg list"

definition alias_warning :: warning where
  "alias_warning = Warnf ''deSEC does not support alias records\<newline>'' []"

definition ttl_warning :: "RecordConfig \<Rightarrow> warning" where
  "ttl_warning rc =
     Warnf ''deSEC does not support ttls < 3600. Setting ttl of %s type %s from %d to 3600\<newline>''
       [Str (GetLabelFQDN rc), Str (Type rc), Num (TTL rc)]"

text \<open>\<^verbatim>\<open>PrepFoundRecords\<close> returns its argument.\<close>

definition PrepFoundRecords :: "Records \<Rightarrow> Records" where
  "PrepFoundRecords recs = recs"

text \<open>
  The loop of \<^verbatim>\<open>PrepDesiredRecords\<close> over \<^verbatim>\<open>dc.Records\<close>. The accumulator
  \<open>recordsToKeep\<close> grows by \<^verbatim>\<open>append\<close>; \<open>ws\<close> is the warning sink. The assignment
  \<^verbatim>\<open>rec.TTL = 3600\<close> sits outside the test on \<^verbatim>\<open>"NS"\<close>, which guards the
  warning only.
\<close>

fun prep_loop :: "Records \<Rightarrow> Records \<Rightarrow> warning list \<Rightarrow> Records \<times> warning list" where
  "prep_loop [] recordsToKeep ws = (recordsToKeep, ws)"
| "prep_loop (rc # recs) recordsToKeep ws =
     (if Type rc = ''ALIAS'' then
        prep_loop recs recordsToKeep (ws @ [alias_warning])
      else if TTL rc < 3600 then
        prep_loop recs (recordsToKeep @ [rc\<lparr>TTL := 3600\<rparr>])
          (if Type rc \<noteq> ''NS'' then ws @ [ttl_warning rc] else ws)
      else
        prep_loop recs (recordsToKeep @ [rc]) ws)"

text \<open>
  \<^verbatim>\<open>PrepDesiredRecords\<close>. \<^verbatim>\<open>dc.Punycode()\<close> rewrites the configuration before the
  loop runs. The result
  is the configuration with \<^verbatim>\<open>dc.Records = recordsToKeep\<close> and the warnings emitted.
\<close>

definition PrepDesiredRecords ::
  "collaborators \<Rightarrow> DomainConfig \<Rightarrow> DomainConfig \<times> warning list" where
  "PrepDesiredRecords ext dc =
     (let dc1 = Punycode ext dc;
          (recordsToKeep, ws) = prep_loop (Records dc1) [] []
      in (dc1\<lparr>Records := recordsToKeep\<rparr>, ws))"

section \<open>Correction planner\<close>

text \<open>
  The closures of \<^verbatim>\<open>GenerateDomainCorrections\<close> refer to variables of the enclosing
  function, and a Go closure captures a variable, not the value it holds when the
  closure is built. The file belongs to the module \<^verbatim>\<open>dnscontrol/v3\<close>, whose language
  version has one instance of a \<^verbatim>\<open>range\<close> variable for the whole loop; the variable
  is assigned anew at each iteration. The captured loop variable \<^verbatim>\<open>label\<close> therefore
  lives in a store: a cell per variable instance, allocated when the variable is
  declared and holding Go's zero value until it is assigned.
\<close>

record heap =
  cells :: "addr \<Rightarrow> RecordKey"
  fresh :: addr

definition new_var :: "heap \<Rightarrow> addr \<times> heap" where
  "new_var h =
     (fresh h,
      h\<lparr>cells := (cells h)(fresh h := \<lparr>key_NameFQDN = [], key_Type = []\<rparr>),
        fresh := Suc (fresh h)\<rparr>)"

definition assign :: "addr \<Rightarrow> RecordKey \<Rightarrow> heap \<Rightarrow> heap" where
  "assign a k h = h\<lparr>cells := (cells h)(a := k)\<rparr>"

definition deref :: "heap \<Rightarrow> addr \<Rightarrow> RecordKey" where
  "deref h a = cells h a"

text \<open>
  What a deferred action does when the caller runs it. Each body ends by returning
  the error of one request on \<^verbatim>\<open>client\<close> unchanged (\<^verbatim>\<open>if err != nil { return err };
  return nil\<close>), so an action is described by the request it issues.
\<close>

datatype api_call =
    deleteRR resourceRecord string
  | upsertRR resourceRecord string

datatype effect =
    Calls api_call
  | Returns_nil
  | Panics string

text \<open>
  \<open>invoke ext h dc f\<close> runs the action \<open>f\<close> in the store \<open>h\<close>, where \<open>dc\<close> is the
  configuration that the captured pointer \<^verbatim>\<open>dc\<close> refers to at that moment.
  \<^item> \<open>delete_F label\<close> is the closure of the deletion branch; \<open>label\<close> is the address of
    the captured loop variable, read when the closure runs. The call of
    \<^verbatim>\<open>dnsutil.TrimDomainName\<close> is taken to return a name; a failure inside the library
    is outside the model.
  \<^item> \<open>upsert_F ns\<close> is the closure of the other branch; \<^verbatim>\<open>ns\<close> is declared inside the
    loop body, one instance per iteration, and never assigned again, so the closure
    carries its value. \<^verbatim>\<open>ns[0]\<close> on an empty slice is a run-time panic.
  \<^item> \<open>noop_F\<close> is \<^verbatim>\<open>func() error { return nil }\<close>.
\<close>

fun invoke :: "collaborators \<Rightarrow> heap \<Rightarrow> DomainConfig \<Rightarrow> action \<Rightarrow> effect" where
  "invoke ext h dc (delete_F label) =
     (let shortname = TrimDomainName ext (key_NameFQDN (deref h label)) (Name dc);
          shortname = (if shortname = ''@'' then [] else shortname);
          empty = [];
          rc = \<lparr>rr_Type = key_Type (deref h label), Subname = shortname,
                rr_Records = empty, rr_TTL = 0\<rparr>
      in Calls (deleteRR rc (Name dc)))"
| "invoke ext h dc (upsert_F ns) =
     (case ns of
        [] \<Rightarrow> Panics ''runtime error: index out of range [0] with length 0''
      | rc # _ \<Rightarrow> Calls (upsertRR rc (Name dc)))"
| "invoke ext h dc noop_F = Returns_nil"

text \<open>
  The inner loop \<^verbatim>\<open>for i, msg := range keysToUpdate[label]\<close>, which has the same
  shape in both branches: index 0 gets the side-effecting closure \<open>real\<close>, every
  other index the no-op.
\<close>

fun msg_loop :: "action \<Rightarrow> nat \<Rightarrow> string list \<Rightarrow> Correction list \<Rightarrow> Correction list" where
  "msg_loop real i [] corrections = corrections"
| "msg_loop real i (msg # msgs) corrections =
     msg_loop real (Suc i) msgs
       (corrections @ [\<lparr>Msg = msg, F = (if i = 0 then real else noop_F)\<rparr>])"

text \<open>A Go function either panics or returns.\<close>

datatype 'a go = Panic string | Return 'a

text \<open>
  The outer loop \<^verbatim>\<open>for label := range keysToUpdate\<close>. \<open>label\<close> is the address of the
  loop variable; each iteration stores the key it visits there. For the entry
  \<open>(k, msgs)\<close> being visited, \<^verbatim>\<open>keysToUpdate[label]\<close> is \<open>msgs\<close> and
  \<^verbatim>\<open>desiredRecords[label]\<close> is \<open>desiredRecords k\<close>: both are evaluated during the
  iteration, not inside a closure.
\<close>

fun key_loop ::
  "collaborators \<Rightarrow> DomainConfig \<Rightarrow> (RecordKey \<Rightarrow> Records option) \<Rightarrow> addr \<Rightarrow>
   (RecordKey \<times> string list) list \<Rightarrow> heap \<Rightarrow> Correction list \<Rightarrow> Correction list go \<times> heap" where
  "key_loop ext dc desiredRecords label [] h corrections = (Return corrections, h)"
| "key_loop ext dc desiredRecords label ((k, msgs) # rest) h corrections =
     (let h1 = assign label k h in
      case desiredRecords k of
        None \<Rightarrow>
          key_loop ext dc desiredRecords label rest h1
            (msg_loop (delete_F label) 0 msgs corrections)
      | Some recs \<Rightarrow>
          (let ns = recordsToNative ext recs (Name dc) in
           if length ns > 1 then
             (Panic ''we got more than one resource record to create / modify'', h1)
           else
             key_loop ext dc desiredRecords label rest h1
               (msg_loop (upsert_F ns) 0 msgs corrections)))"

text \<open>
  \<^verbatim>\<open>GenerateDomainCorrections\<close> returns the corrections with a nil error, or panics.
  The store is threaded through because the closures it returns read it later.
\<close>

definition GenerateDomainCorrections ::
  "collaborators \<Rightarrow> DomainConfig \<Rightarrow> Records \<Rightarrow> heap \<Rightarrow>
   (Correction list \<times> error option) go \<times> heap" where
  "GenerateDomainCorrections ext dc existing h =
     (let corrections = [];
          keysToUpdate = ChangedGroups ext dc existing
      in if length keysToUpdate = 0 then (Return ([], None), h)
         else
           let desiredRecords = GroupedByKey ext (Records dc);
               (label, h0) = new_var h
           in case key_loop ext dc desiredRecords label keysToUpdate h0 corrections of
                (Panic m, h') \<Rightarrow> (Panic m, h')
              | (Return cs, h') \<Rightarrow> (Return (cs, None), h'))"

section \<open>Reading the zone and the entry point\<close>

definition GetZoneRecords :: "collaborators \<Rightarrow> string \<Rightarrow> error + Records" where
  "GetZoneRecords ext domain =
     (case getRecords ext domain of
        Inl err \<Rightarrow> Inl err
      | Inr records \<Rightarrow>
          Inr (fold (\<lambda>rr existingRecords. existingRecords @ nativeToRecords ext rr domain)
                 records []))"

text \<open>
  \<^verbatim>\<open>GetDomainCorrections\<close>. Besides the result of the planner it gives the warnings
  emitted and the configuration as \<^verbatim>\<open>PrepDesiredRecords\<close> left it; a failed fetch
  returns the error before the configuration is touched.
\<close>

definition GetDomainCorrections ::
  "collaborators \<Rightarrow> DomainConfig \<Rightarrow> heap \<Rightarrow>
   ((Correction list \<times> error option) go \<times> heap) \<times> warning list \<times> DomainConfig" where
  "GetDomainCorrections ext dc h =
     (case GetZoneRecords ext (Name dc) of
        Inl err \<Rightarrow> ((Return ([], Some err), h), [], dc)
      | Inr existing \<Rightarrow>
          (let existing1 = PostProcessRecords ext existing;
               clean = PrepFoundRecords existing1;
               (dc1, ws) = PrepDesiredRecords ext dc
           in (GenerateDomainCorrections ext dc1 clean h, ws, dc1)))"

section \<open>Construction and the domain existence gate\<close>

text \<open>
  The provider handle \<^verbatim>\<open>api\<close>: the credential and the domain index, a map whose
  values are not inspected here. The requests \<^verbatim>\<open>fetchDomainList\<close> and
  \<^verbatim>\<open>createDomain\<close> are defined elsewhere; they are parameters acting on the handle and
  on the state \<open>'w\<close> of the remote side, and each use is logged.
\<close>

record 'i api =
  token :: string
  domainIndex :: "string \<Rightarrow> 'i option"

record ('i, 'w) remote =
  fetchDomainList :: "'i api \<Rightarrow> 'w \<Rightarrow> error option \<times> 'i api \<times> 'w"
  createDomain :: "string \<Rightarrow> 'i api \<Rightarrow> 'w \<Rightarrow> error option \<times> 'i api \<times> 'w"

datatype request = FetchDomainList | CreateDomain string

text \<open>
  \<^verbatim>\<open>NewDeSec\<close>: a missing key of the Go map \<open>m\<close> reads as the empty string. The result
  is an error or the handle, with the remote state and the requests issued.
\<close>

definition NewDeSec ::
  "('i, 'w) remote \<Rightarrow> (string \<Rightarrow> string option) \<Rightarrow> 'w \<Rightarrow> (error + 'i api) \<times> 'w \<times> request list" where
  "NewDeSec rem m w =
     (let c0 = \<lparr>token = [], domainIndex = Map.empty\<rparr>;
          c = c0\<lparr>token := (case m ''auth-token'' of None \<Rightarrow> [] | Some t \<Rightarrow> t)\<rparr>
      in if token c = [] then (Inl ''missing deSEC auth-token'', w, [])
         else
           case fetchDomainList rem c w of
             (Some err, c1, w1) \<Rightarrow> (Inl err, w1, [FetchDomainList])
           | (None, c1, w1) \<Rightarrow> (Inr c1, w1, [FetchDomainList]))"

definition EnsureDomainExists ::
  "('i, 'w) remote \<Rightarrow> string \<Rightarrow> 'i api \<Rightarrow> 'w \<Rightarrow> error option \<times> 'i api \<times> 'w \<times> request list" where
  "EnsureDomainExists rem domain c w =
     (case fetchDomainList rem c w of
        (Some err, c1, w1) \<Rightarrow> (Some err, c1, w1, [FetchDomainList])
      | (None, c1, w1) \<Rightarrow>
          (case domainIndex c1 domain of
             Some _ \<Rightarrow> (None, c1, w1, [FetchDomainList])
           | None \<Rightarrow>
               (case createDomain rem domain c1 w1 of
                  (err, c2, w2) \<Rightarrow> (err, c2, w2, [FetchDomainList, CreateDomain domain]))))"

section \<open>Collaborators as the specification describes them\<close>

text \<open>
  The definitions of this section are not part of the embedded file. They give the
  missing collaborators a concrete behaviour, for statements about the native
  record mapper and for runs on concrete inputs.
\<close>

definition Key :: "RecordConfig \<Rightarrow> RecordKey" where
  "Key rc = \<lparr>key_NameFQDN = NameFQDN rc, key_Type = Type rc\<rparr>"

text \<open>
  Modelled from the spec: \<^verbatim>\<open>Records.GroupedByKey\<close> is declared outside the file. The
  desired record set is grouped by (label, type) key; a key without records is absent.
\<close>

definition GroupedByKey_spec :: "Records \<Rightarrow> RecordKey \<Rightarrow> Records option" where
  "GroupedByKey_spec recs k =
     (let g = filter (\<lambda>rc. Key rc = k) recs in if g = [] then None else Some g)"

text \<open>
  Modelled from the spec: \<^verbatim>\<open>recordsToNative\<close> is declared outside the file. All generic
  records sharing a label and type are coalesced into one native record set that
  carries all their values; the subname is the label with the zone suffix stripped,
  the apex being the empty string. The set takes the TTL of its first record.
\<close>

definition recordsToNative_spec ::
  "(string \<Rightarrow> string \<Rightarrow> string) \<Rightarrow> Records \<Rightarrow> string \<Rightarrow> resourceRecord list" where
  "recordsToNative_spec trim rcs origin =
     map (\<lambda>k. let g = filter (\<lambda>rc. Key rc = k) rcs;
                  shortname = trim (key_NameFQDN k) origin
              in \<lparr>rr_Type = key_Type k,
                  Subname = (if shortname = ''@'' then [] else shortname),
                  rr_Records = map Value g,
                  rr_TTL = (case g of [] \<Rightarrow> 0 | rc # _ \<Rightarrow> TTL rc)\<rparr>)
         (remdups (map Key rcs))"

text \<open>
  \<^verbatim>\<open>dnsutil.TrimDomainName\<close> on plain names: lower case, no trailing or leading dot, no
  escape, and an origin that is neither empty nor the root. There the empty name and
  the origin itself give the marker \<open>@\<close>, a name below the origin loses the suffix
  made of a dot and the origin, and any other name is returned as it is. The library
  compares names without regard to case and fails on an empty origin; the definition
  is used on plain names only.
\<close>

definition TrimDomainName_plain :: "string \<Rightarrow> string \<Rightarrow> string" where
  "TrimDomainName_plain s origin =
     (let suf = CHR ''.'' # origin in
      if s = [] then ''@''
      else if s = origin then ''@''
      else if length suf < length s \<and> drop (length s - length suf) s = suf
        then take (length s - length suf) s
      else s)"

text \<open>
  Collaborators for concrete runs: the diff reports the given changed groups, and the
  fetched zone is the given list of native record sets, each expanded into one generic
  record per value.
\<close>

definition plain_collaborators ::
  "(RecordKey \<times> string list) list \<Rightarrow> resourceRecord list \<Rightarrow> collaborators" where
  "plain_collaborators changed zone =
     \<lparr>Punycode = (\<lambda>dc. dc),
      PostProcessRecords = (\<lambda>recs. recs),
      ChangedGroups = (\<lambda>dc existing. changed),
      GroupedByKey = GroupedByKey_spec,
      recordsToNative = recordsToNative_spec TrimDomainName_plain,
      nativeToRecords = (\<lambda>rr domain.
        map (\<lambda>v. \<lparr>Type = rr_Type rr, TTL = rr_TTL rr,
                   NameFQDN = (if Subname rr = [] then domain else Subname rr @ ''.'' @ domain),
                   Value = v\<rparr>) (rr_Records rr)),
      TrimDomainName = TrimDomainName_plain,
      getRecords = (\<lambda>domain. Inr zone)\<rparr>"

text \<open>
  Modelled from the spec: \<^verbatim>\<open>fetchDomainList\<close> and \<^verbatim>\<open>createDomain\<close> are declared outside
  the file. The remote side is the list of its zones; a refresh makes the domain index
  hold exactly these, and a creation adds the zone.
\<close>

definition zone_remote :: "(unit, string list) remote" where
  "zone_remote =
     \<lparr>fetchDomainList = (\<lambda>c w.
        (None, c\<lparr>domainIndex := (\<lambda>d. if d \<in> set w then Some () else None)\<rparr>, w)),
      createDomain = (\<lambda>domain c w. (None, c, w @ [domain]))\<rparr>"

text \<open>The store before any variable is allocated.\<close>

definition heap0 :: heap where
  "heap0 = \<lparr>cells = (\<lambda>a. \<lparr>key_NameFQDN = [], key_Type = []\<rparr>), fresh = 0\<rparr>"

text \<open>
  What the passes above amount to, stated per record and per planning pass; the
  lemmas of the next sections relate them to the loops.
  \<^item> \<open>floor_ttl\<close>, \<open>warnings_of\<close>: the record a kept record becomes, and the warnings one
    record of the input causes.
  \<^item> \<open>planned_effects\<close>: the caller runs the corrections after the planner has returned;
    this is the message of each correction with what its action does at that time.
\<close>

definition floor_ttl :: "RecordConfig \<Rightarrow> RecordConfig" where
  "floor_ttl rc = (if TTL rc < 3600 then rc\<lparr>TTL := 3600\<rparr> else rc)"

definition warnings_of :: "RecordConfig \<Rightarrow> warning list" where
  "warnings_of rc =
     (if Type rc = ''ALIAS'' then [alias_warning]
      else if TTL rc < 3600 \<and> Type rc \<noteq> ''NS'' then [ttl_warning rc]
      else [])"

definition planned_effects ::
  "collaborators \<Rightarrow> DomainConfig \<Rightarrow> Records \<Rightarrow> heap \<Rightarrow> (string \<times> effect) list go" where
  "planned_effects ext dc existing h =
     (case GenerateDomainCorrections ext dc existing h of
        (Panic m, h') \<Rightarrow> Panic m
      | (Return (cs, err), h') \<Rightarrow> Return (map (\<lambda>c. (Msg c, invoke ext h' dc (F c))) cs))"

section \<open>Properties of the normalizer\<close>

lemma ttl_warning_not_alias: "ttl_warning rc \<noteq> alias_warning"
  by (simp add: ttl_warning_def alias_warning_def)

lemma prep_loop_eq:
  "prep_loop recs keep ws =
     (keep @ map floor_ttl (filter (\<lambda>rc. Type rc \<noteq> ''ALIAS'') recs),
      ws @ concat (map warnings_of recs))"
  by (induction recs arbitrary: keep ws) (simp_all add: floor_ttl_def warnings_of_def)

lemma PrepDesiredRecords_eq:
  "PrepDesiredRecords ext dc =
     ((Punycode ext dc)\<lparr>Records :=
         map floor_ttl (filter (\<lambda>rc. Type rc \<noteq> ''ALIAS'') (Records (Punycode ext dc)))\<rparr>,
      concat (map warnings_of (Records (Punycode ext dc))))"
  by (simp add: PrepDesiredRecords_def prep_loop_eq Let_def)

lemma count_alias_warnings:
  "length (filter (\<lambda>w. w = alias_warning) (concat (map warnings_of recs)))
   = length (filter (\<lambda>rc. Type rc = ''ALIAS'') recs)"
  by (induction recs) (simp_all add: warnings_of_def ttl_warning_not_alias)

lemma warnings_of_not_NS:
  assumes "ttl_warning rc \<in> set (warnings_of a)"
  shows "Type rc \<noteq> ''NS''"
proof -
  from assms have "ttl_warning rc = ttl_warning a \<and> Type a \<noteq> ''NS''"
    by (simp add: warnings_of_def ttl_warning_not_alias split: if_splits)
  then show ?thesis
    by (simp add: ttl_warning_def)
qed

lemma warnings_no_NS:
  "ttl_warning rc \<in> set (concat (map warnings_of recs)) \<Longrightarrow> Type rc \<noteq> ''NS''"
  using warnings_of_not_NS by auto

lemma warnings_has_ttl:
  "rc \<in> set recs \<Longrightarrow> Type rc \<noteq> ''ALIAS'' \<Longrightarrow> TTL rc < 3600 \<Longrightarrow> Type rc \<noteq> ''NS'' \<Longrightarrow>
   ttl_warning rc \<in> set (concat (map warnings_of recs))"
proof -
  assume "rc \<in> set recs" "Type rc \<noteq> ''ALIAS''" "TTL rc < 3600" "Type rc \<noteq> ''NS''"
  then have "ttl_warning rc \<in> set (warnings_of rc)" "rc \<in> set recs"
    by (simp_all add: warnings_of_def)
  then show ?thesis by auto
qed

lemma warnings_are_fixed_or_ttl:
  assumes "w \<in> set (concat (map warnings_of recs))"
  shows "w = alias_warning \<or> (\<exists>rc \<in> set recs. Type rc \<noteq> ''ALIAS'' \<and> w = ttl_warning rc)"
proof -
  from assms obtain rc where rc: "rc \<in> set recs" "w \<in> set (warnings_of rc)"
    by auto
  then show ?thesis
    by (auto simp add: warnings_of_def split: if_splits)
qed

section \<open>Properties of the planner loops\<close>

lemma msg_loop_later:
  "msg_loop real (Suc i) msgs corrections =
     corrections @ map (\<lambda>msg. \<lparr>Msg = msg, F = noop_F\<rparr>) msgs"
  by (induction msgs arbitrary: i corrections) simp_all

lemma msg_loop_first:
  "msg_loop real 0 (msg # msgs) corrections =
     corrections @ \<lparr>Msg = msg, F = real\<rparr> # map (\<lambda>msg. \<lparr>Msg = msg, F = noop_F\<rparr>) msgs"
  by (simp add: msg_loop_later)

lemma msg_loop_append:
  "\<exists>new. msg_loop real i msgs corrections = corrections @ new \<and> length new = length msgs"
proof (cases msgs)
  case Nil
  then show ?thesis by simp
next
  case (Cons msg rest)
  show ?thesis
  proof (cases i)
    case 0
    with Cons show ?thesis by (simp add: msg_loop_later)
  next
    case (Suc j)
    with Cons show ?thesis by (simp add: msg_loop_later)
  qed
qed

lemma msg_loop_actions:
  assumes "c \<in> set (msg_loop real i msgs corrections)"
  shows "c \<in> set corrections \<or> F c = real \<or> F c = noop_F"
proof (cases msgs)
  case Nil
  with assms show ?thesis by simp
next
  case (Cons msg rest)
  show ?thesis
  proof (cases i)
    case 0
    with Cons assms show ?thesis by (auto simp add: msg_loop_later)
  next
    case (Suc j)
    with Cons assms show ?thesis by (auto simp add: msg_loop_later)
  qed
qed

lemma key_loop_append:
  "key_loop ext dc dr label (xs @ ys) h acc =
     (case key_loop ext dc dr label xs h acc of
        (Panic m, h1) \<Rightarrow> (Panic m, h1)
      | (Return acc1, h1) \<Rightarrow> key_loop ext dc dr label ys h1 acc1)"
  by (induction xs arbitrary: h acc) (auto simp add: Let_def split: option.splits)

lemma key_loop_length:
  "key_loop ext dc dr label kvs h acc = (Return cs, h') \<Longrightarrow>
   \<exists>new. cs = acc @ new \<and> length new = sum_list (map (\<lambda>kv. length (snd kv)) kvs)"
proof (induction kvs arbitrary: h acc)
  case Nil
  then show ?case by simp
next
  case (Cons kv kvs)
  obtain k msgs where kv: "kv = (k, msgs)" by (cases kv)
  show ?case
  proof (cases "dr k")
    case None
    obtain n1 where n1: "msg_loop (delete_F label) 0 msgs acc = acc @ n1" "length n1 = length msgs"
      using msg_loop_append by blast
    from Cons.prems kv None
    have "key_loop ext dc dr label kvs (assign label k h) (acc @ n1) = (Return cs, h')"
      by (simp add: n1)
    from Cons.IH [OF this] n1 kv show ?thesis by auto
  next
    case (Some recs)
    let ?ns = "recordsToNative ext recs (Name dc)"
    obtain n1 where n1: "msg_loop (upsert_F ?ns) 0 msgs acc = acc @ n1" "length n1 = length msgs"
      using msg_loop_append by blast
    from Cons.prems kv Some
    have "key_loop ext dc dr label kvs (assign label k h) (acc @ n1) = (Return cs, h')"
      by (simp add: n1 Let_def split: if_splits)
    from Cons.IH [OF this] n1 kv show ?thesis by auto
  qed
qed

lemma key_loop_heap:
  "key_loop ext dc dr label kvs h acc = (Return cs, h') \<Longrightarrow> kvs \<noteq> [] \<Longrightarrow>
   deref h' label = fst (last kvs)"
proof (induction kvs arbitrary: h acc)
  case Nil
  then show ?case by simp
next
  case (Cons kv kvs)
  obtain k msgs where kv: "kv = (k, msgs)" by (cases kv)
  from Cons.prems(1) kv obtain acc1 where
    run: "key_loop ext dc dr label kvs (assign label k h) acc1 = (Return cs, h')"
    by (auto simp add: Let_def split: option.splits if_splits)
  show ?case
  proof (cases "kvs = []")
    case True
    with run kv show ?thesis by (auto simp add: assign_def deref_def)
  next
    case False
    with Cons.IH [OF run] show ?thesis by simp
  qed
qed

lemma key_loop_panic:
  "(k, msgs) \<in> set kvs \<Longrightarrow> dr k = Some g \<Longrightarrow> 1 < length (recordsToNative ext g (Name dc)) \<Longrightarrow>
   fst (key_loop ext dc dr label kvs h acc) =
     Panic ''we got more than one resource record to create / modify''"
proof (induction kvs arbitrary: h acc)
  case Nil
  then show ?case by simp
next
  case (Cons kv kvs)
  obtain k' msgs' where kv: "kv = (k', msgs')" by (cases kv)
  show ?case
  proof (cases "k' = k")
    case True
    with Cons.prems kv show ?thesis by simp
  next
    case False
    with Cons.prems kv have "(k, msgs) \<in> set kvs" by simp
    from Cons.IH [OF this Cons.prems(2,3)] kv show ?thesis
      by (simp add: Let_def split: option.splits)
  qed
qed

lemma key_loop_actions:
  "key_loop ext dc dr label kvs h acc = (Return cs, h') \<Longrightarrow> c \<in> set cs \<Longrightarrow> F c = delete_F a \<Longrightarrow>
   c \<in> set acc \<or> a = label"
proof (induction kvs arbitrary: h acc)
  case Nil
  then show ?case by simp
next
  case (Cons kv kvs)
  obtain k msgs where kv: "kv = (k, msgs)" by (cases kv)
  have new: "c \<in> set (msg_loop real i msgs acc) \<Longrightarrow> F c = delete_F a \<Longrightarrow>
     c \<in> set acc \<or> real = delete_F a" for real i
    using msg_loop_actions [of c real i msgs acc] by auto
  from Cons.prems(1) kv obtain real where
    run: "key_loop ext dc dr label kvs (assign label k h) (msg_loop real 0 msgs acc) = (Return cs, h')"
    and real: "real = delete_F label \<or> (\<exists>ns. real = upsert_F ns)"
    by (auto simp add: Let_def split: option.splits if_splits)
  from Cons.IH [OF run Cons.prems(2,3)] new [of real 0] real Cons.prems(3) show ?case
    by auto
qed

lemma key_loop_returns:
  "\<forall>kv \<in> set kvs. \<forall>g. dr (fst kv) = Some g \<longrightarrow> length (recordsToNative ext g (Name dc)) \<le> 1 \<Longrightarrow>
   \<exists>cs h'. key_loop ext dc dr label kvs h acc = (Return cs, h')"
proof (induction kvs arbitrary: h acc)
  case Nil
  then show ?case by simp
next
  case (Cons kv kvs)
  obtain k msgs where kv: "kv = (k, msgs)" by (cases kv)
  from Cons.prems have rest:
    "\<forall>kv \<in> set kvs. \<forall>g. dr (fst kv) = Some g \<longrightarrow> length (recordsToNative ext g (Name dc)) \<le> 1"
    by simp
  show ?case
  proof (cases "dr k")
    case None
    with Cons.IH [OF rest] kv show ?thesis by simp
  next
    case (Some g)
    with Cons.prems kv have "\<not> 1 < length (recordsToNative ext g (Name dc))"
      by fastforce
    with Cons.IH [OF rest] kv Some show ?thesis by (simp add: Let_def)
  qed
qed

lemma remdups_same:
  "remdups (replicate n x) = (if n = 0 then [] else [x])"
  by (induction n) simp_all

lemma recordsToNative_spec_group:
  assumes "GroupedByKey_spec recs k = Some g"
  shows "length (recordsToNative_spec trim g origin) = 1"
proof -
  from assms have g: "g = filter (\<lambda>rc. Key rc = k) recs" and ne: "g \<noteq> []"
    by (auto simp add: GroupedByKey_spec_def Let_def split: if_splits)
  from g have "\<forall>y \<in> set (map Key g). y = k" by simp
  then have "replicate (length (map Key g)) k = map Key g"
    by (rule replicate_length_same)
  then have "map Key g = replicate (length g) k" by simp
  then have "remdups (map Key g) = [k]"
    using ne by (simp add: remdups_same)
  then show ?thesis
    by (simp add: recordsToNative_spec_def)
qed

lemma delete_actions_read_last_key:
  assumes ret: "GenerateDomainCorrections ext dc existing h = (Return (cs, err), h')"
    and c: "c \<in> set cs" and f: "F c = delete_F a"
  shows "ChangedGroups ext dc existing \<noteq> [] \<and>
         invoke ext h' dc (F c) =
           Calls (deleteRR
             \<lparr>rr_Type = key_Type (fst (last (ChangedGroups ext dc existing))),
              Subname =
                (if TrimDomainName ext (key_NameFQDN (fst (last (ChangedGroups ext dc existing)))) (Name dc) = ''@''
                 then []
                 else TrimDomainName ext (key_NameFQDN (fst (last (ChangedGroups ext dc existing)))) (Name dc)),
              rr_Records = [], rr_TTL = 0\<rparr> (Name dc))"
proof -
  let ?kvs = "ChangedGroups ext dc existing"
  have ne: "?kvs \<noteq> []"
    using ret c by (auto simp add: GenerateDomainCorrections_def)
  with ret have loop:
    "key_loop ext dc (GroupedByKey ext (Records dc)) (fresh h) ?kvs (snd (new_var h)) [] = (Return cs, h')"
    by (auto simp add: GenerateDomainCorrections_def new_var_def Let_def split: prod.splits go.splits)
  from key_loop_actions [OF loop c f] have a: "a = fresh h" by simp
  from key_loop_heap [OF loop ne] have "deref h' (fresh h) = fst (last ?kvs)" .
  with ne a f show ?thesis
    by (simp add: Let_def)
qed

lemma delete_subname_never_marker:
  "invoke ext h dc (delete_F a) = Calls (deleteRR rc origin) \<Longrightarrow>
   Subname rc \<noteq> ''@'' \<and>
   (TrimDomainName ext (key_NameFQDN (deref h a)) (Name dc) = ''@'' \<longrightarrow> Subname rc = []) \<and>
   (TrimDomainName ext (key_NameFQDN (deref h a)) (Name dc) \<noteq> ''@'' \<longrightarrow>
      Subname rc = TrimDomainName ext (key_NameFQDN (deref h a)) (Name dc)) \<and>
   rr_Type rc = key_Type (deref h a) \<and> rr_Records rc = [] \<and> origin = Name dc"
  by (auto simp add: Let_def split: if_splits)

lemma deletion_segment:
  assumes keys: "ChangedGroups ext dc existing = before @ (k, msg # msgs) # after"
    and absent: "GroupedByKey ext (Records dc) k = None"
    and single: "\<forall>kv \<in> set (ChangedGroups ext dc existing). \<forall>g.
                   GroupedByKey ext (Records dc) (fst kv) = Some g \<longrightarrow>
                   length (recordsToNative ext g (Name dc)) \<le> 1"
  shows "\<exists>pre post.
           fst (GenerateDomainCorrections ext dc existing h) =
             Return (pre @ (\<lparr>Msg = msg, F = delete_F (fresh h)\<rparr> #
                            map (\<lambda>m. \<lparr>Msg = m, F = noop_F\<rparr>) msgs) @ post, None) \<and>
           length pre = sum_list (map (\<lambda>kv. length (snd kv)) before) \<and>
           length post = sum_list (map (\<lambda>kv. length (snd kv)) after)"
proof -
  let ?dr = "GroupedByKey ext (Records dc)"
  let ?label = "fresh h"
  let ?h0 = "snd (new_var h)"
  let ?kvs = "before @ (k, msg # msgs) # after"
  from key_loop_returns [OF single, of ?label ?h0 "[]"] keys obtain cs hf where
    loop: "key_loop ext dc ?dr ?label ?kvs ?h0 [] = (Return cs, hf)"
    by auto
  then have ret: "fst (GenerateDomainCorrections ext dc existing h) = Return (cs, None)"
    using keys by (simp add: GenerateDomainCorrections_def new_var_def Let_def)
  from loop obtain pre h1 where
    pre: "key_loop ext dc ?dr ?label before ?h0 [] = (Return pre, h1)"
    and rest: "key_loop ext dc ?dr ?label ((k, msg # msgs) # after) h1 pre = (Return cs, hf)"
    by (auto simp add: key_loop_append split: prod.splits go.splits)
  let ?seg = "\<lparr>Msg = msg, F = delete_F ?label\<rparr> # map (\<lambda>m. \<lparr>Msg = m, F = noop_F\<rparr>) msgs"
  from rest absent
  have "key_loop ext dc ?dr ?label after (assign ?label k h1) (pre @ ?seg) = (Return cs, hf)"
    by (simp add: msg_loop_later)
  from key_loop_length [OF this] obtain post where
    post: "cs = (pre @ ?seg) @ post" "length post = sum_list (map (\<lambda>kv. length (snd kv)) after)"
    by blast
  from key_loop_length [OF pre]
  have lpre: "length pre = sum_list (map (\<lambda>kv. length (snd kv)) before)"
    by auto
  from post lpre ret show ?thesis
    by auto
qed

section \<open>Claims about the provider\<close>

text \<open>
  C7. If the diff engine reports no changed groups, \<^verbatim>\<open>GenerateDomainCorrections\<close> returns
  an empty correction list together with a nil error: the converged state is not an
  error. The store is left as it was.
\<close>

theorem GenerateDomainCorrections_converged:
  "ChangedGroups ext dc existing = [] \<Longrightarrow>
   GenerateDomainCorrections ext dc existing h = (Return ([], None), h)"
  by (simp add: GenerateDomainCorrections_def)

theorem GenerateDomainCorrections_converged_witness:
  "ChangedGroups (plain_collaborators [] []) \<lparr>Name = ''example.com'', Records = []\<rparr> [] = [] \<and>
   GenerateDomainCorrections (plain_collaborators [] []) \<lparr>Name = ''example.com'', Records = []\<rparr> [] heap0
     = (Return ([], None), heap0)"
proof -
  have h: "ChangedGroups (plain_collaborators [] []) \<lparr>Name = ''example.com'', Records = []\<rparr> [] = []"
    by (simp add: plain_collaborators_def)
  show ?thesis
    using h GenerateDomainCorrections_converged [OF h, of heap0] by simp
qed

text \<open>
  C8. Constructing the provider with a missing or empty \<^verbatim>\<open>auth-token\<close> credential returns
  the error at once: no request is issued, the remote side is untouched, and no
  provider handle is returned.
\<close>

theorem NewDeSec_missing_token:
  "m ''auth-token'' = None \<or> m ''auth-token'' = Some [] \<Longrightarrow>
   NewDeSec rem m w = (Inl ''missing deSEC auth-token'', w, [])"
  by (auto simp add: NewDeSec_def)

theorem NewDeSec_missing_token_witness:
  "NewDeSec zone_remote Map.empty [''example.com''] =
     (Inl ''missing deSEC auth-token'', [''example.com''], []) \<and>
   NewDeSec zone_remote [''auth-token'' \<mapsto> []] [''example.com''] =
     (Inl ''missing deSEC auth-token'', [''example.com''], [])"
  using NewDeSec_missing_token [of Map.empty zone_remote "[''example.com'']"]
    NewDeSec_missing_token [of "[''auth-token'' \<mapsto> []]" zone_remote "[''example.com'']"]
  by simp

text \<open>
  C10. \<^verbatim>\<open>PrepFoundRecords\<close> is the identity on the fetched record list, so in
  \<^verbatim>\<open>GetDomainCorrections\<close> the planner, and with it the diff, receives exactly the
  post-processed remote records.
\<close>

theorem PrepFoundRecords_identity:
  "PrepFoundRecords recs = recs \<and>
   (GetZoneRecords ext (Name dc) = Inr existing \<longrightarrow>
      fst (GetDomainCorrections ext dc h) =
        GenerateDomainCorrections ext (fst (PrepDesiredRecords ext dc))
          (PostProcessRecords ext existing) h)"
  by (simp add: PrepFoundRecords_def GetDomainCorrections_def Let_def split: prod.splits)

theorem PrepFoundRecords_identity_witness:
  "GetZoneRecords
     (plain_collaborators [] [\<lparr>rr_Type = ''A'', Subname = ''www'', rr_Records = [''192.0.2.1'', ''192.0.2.2''], rr_TTL = 3600\<rparr>])
     ''example.com''
   = Inr [\<lparr>Type = ''A'', TTL = 3600, NameFQDN = ''www.example.com'', Value = ''192.0.2.1''\<rparr>,
          \<lparr>Type = ''A'', TTL = 3600, NameFQDN = ''www.example.com'', Value = ''192.0.2.2''\<rparr>] \<and>
   fst (GetDomainCorrections
     (plain_collaborators [] [\<lparr>rr_Type = ''A'', Subname = ''www'', rr_Records = [''192.0.2.1'', ''192.0.2.2''], rr_TTL = 3600\<rparr>])
     \<lparr>Name = ''example.com'', Records = []\<rparr> heap0)
   = (Return ([], None), heap0)"
proof -
  let ?ext = "plain_collaborators [] [\<lparr>rr_Type = ''A'', Subname = ''www'', rr_Records = [''192.0.2.1'', ''192.0.2.2''], rr_TTL = 3600\<rparr>]"
  let ?dc = "\<lparr>Name = ''example.com'', Records = []\<rparr>"
  let ?existing = "[\<lparr>Type = ''A'', TTL = 3600, NameFQDN = ''www.example.com'', Value = ''192.0.2.1''\<rparr>,
          \<lparr>Type = ''A'', TTL = 3600, NameFQDN = ''www.example.com'', Value = ''192.0.2.2''\<rparr>]"
  have z: "GetZoneRecords ?ext (Name ?dc) = Inr ?existing"
    by (simp add: GetZoneRecords_def plain_collaborators_def)
  have g: "GenerateDomainCorrections ?ext (fst (PrepDesiredRecords ?ext ?dc))
          (PostProcessRecords ?ext ?existing) heap0 = (Return ([], None), heap0)"
    by (simp add: GenerateDomainCorrections_def plain_collaborators_def)
  from PrepFoundRecords_identity [of ?existing ?ext ?dc ?existing heap0] z g
  show ?thesis by simp
qed

text \<open>
  C2 asks that a deleted group with K messages yields K corrections of which the first
  carries the real deletion and the K - 1 others a no-op. The number and the order of
  the corrections are as the claim says (lemma \<open>deletion_segment\<close>), and the others
  return nil. The first one carries the delete closure, but that closure deletes the
  key the loop visited last. With \<^verbatim>\<open>old.example.com\<close> of type TXT deleted under three
  messages and visited before \<^verbatim>\<open>www.example.com\<close> of type A, which is being changed, the
  three corrections of the deleted group are followed by the upsert; the first of them
  deletes the record set of \<^verbatim>\<open>www.example.com\<close>, and nothing deletes \<^verbatim>\<open>old.example.com\<close>.
\<close>

theorem delete_action_of_group_deletes_upserted_key:
  "planned_effects
     (plain_collaborators
        [(\<lparr>key_NameFQDN = ''old.example.com'', key_Type = ''TXT''\<rparr>, [''DELETE one'', ''DELETE two'', ''DELETE three'']),
         (\<lparr>key_NameFQDN = ''www.example.com'', key_Type = ''A''\<rparr>, [''CHANGE www''])] [])
     \<lparr>Name = ''example.com'',
      Records = [\<lparr>Type = ''A'', TTL = 3600, NameFQDN = ''www.example.com'', Value = ''192.0.2.1''\<rparr>]\<rparr>
     [] heap0
   = Return
       [(''DELETE one'', Calls (deleteRR \<lparr>rr_Type = ''A'', Subname = ''www'', rr_Records = [], rr_TTL = 0\<rparr> ''example.com'')),
        (''DELETE two'', Returns_nil),
        (''DELETE three'', Returns_nil),
        (''CHANGE www'', Calls (upsertRR \<lparr>rr_Type = ''A'', Subname = ''www'', rr_Records = [''192.0.2.1''], rr_TTL = 3600\<rparr> ''example.com''))]"
  by (simp add: planned_effects_def GenerateDomainCorrections_def plain_collaborators_def
      GroupedByKey_spec_def Key_def recordsToNative_spec_def new_var_def heap0_def assign_def
      deref_def TrimDomainName_plain_def)

text \<open>
  C4. For a changed group key present in the desired set, converting the records of
  that key yields exactly one native record set: this holds of the grouping and the
  mapper as the specification describes them. Whatever the mapper is, if a changed key
  of the desired set converts to more than one native record set, the pass panics: it
  returns no correction list at all, so no native record set is dropped silently and
  no correction is emitted.
\<close>

theorem more_than_one_native_set_aborts:
  "(GroupedByKey_spec recs k = Some g \<longrightarrow> length (recordsToNative_spec trim g origin) = 1) \<and>
   ((k', msgs) \<in> set (ChangedGroups ext dc existing) \<and>
    GroupedByKey ext (Records dc) k' = Some g' \<and>
    1 < length (recordsToNative ext g' (Name dc)) \<longrightarrow>
      fst (GenerateDomainCorrections ext dc existing h) =
        Panic ''we got more than one resource record to create / modify'')"
proof -
  have "fst (GenerateDomainCorrections ext dc existing h) =
        Panic ''we got more than one resource record to create / modify''"
    if a: "(k', msgs) \<in> set (ChangedGroups ext dc existing)"
      and b: "GroupedByKey ext (Records dc) k' = Some g'"
      and c: "1 < length (recordsToNative ext g' (Name dc))"
  proof -
    from a have ne: "ChangedGroups ext dc existing \<noteq> []" by auto
    from key_loop_panic [where dr = "GroupedByKey ext (Records dc)" and ext = ext and dc = dc
        and label = "fresh h" and h = "snd (new_var h)" and acc = "[]", OF a b c] ne
    show ?thesis
      by (auto simp add: GenerateDomainCorrections_def new_var_def Let_def split: prod.splits go.splits)
  qed
  then show ?thesis
    using recordsToNative_spec_group by blast
qed

theorem more_than_one_native_set_aborts_witness:
  "GroupedByKey_spec
     [\<lparr>Type = ''A'', TTL = 3600, NameFQDN = ''www.example.com'', Value = ''192.0.2.1''\<rparr>,
      \<lparr>Type = ''MX'', TTL = 3600, NameFQDN = ''example.com'', Value = ''10 mail.example.com.''\<rparr>,
      \<lparr>Type = ''A'', TTL = 3600, NameFQDN = ''www.example.com'', Value = ''192.0.2.2''\<rparr>]
     \<lparr>key_NameFQDN = ''www.example.com'', key_Type = ''A''\<rparr>
   = Some [\<lparr>Type = ''A'', TTL = 3600, NameFQDN = ''www.example.com'', Value = ''192.0.2.1''\<rparr>,
           \<lparr>Type = ''A'', TTL = 3600, NameFQDN = ''www.example.com'', Value = ''192.0.2.2''\<rparr>] \<and>
   recordsToNative_spec TrimDomainName_plain
     [\<lparr>Type = ''A'', TTL = 3600, NameFQDN = ''www.example.com'', Value = ''192.0.2.1''\<rparr>,
      \<lparr>Type = ''A'', TTL = 3600, NameFQDN = ''www.example.com'', Value = ''192.0.2.2''\<rparr>]
     ''example.com''
   = [\<lparr>rr_Type = ''A'', Subname = ''www'', rr_Records = [''192.0.2.1'', ''192.0.2.2''], rr_TTL = 3600\<rparr>] \<and>
   fst (GenerateDomainCorrections
     ((plain_collaborators
         [(\<lparr>key_NameFQDN = ''old.example.com'', key_Type = ''TXT''\<rparr>, [''DELETE old'']),
          (\<lparr>key_NameFQDN = ''www.example.com'', key_Type = ''A''\<rparr>, [''CREATE www''])] [])
        \<lparr>recordsToNative := (\<lambda>rcs origin.
            map (\<lambda>rc. \<lparr>rr_Type = Type rc, Subname = ''www'', rr_Records = [Value rc], rr_TTL = TTL rc\<rparr>) rcs)\<rparr>)
     \<lparr>Name = ''example.com'', Records =
        [\<lparr>Type = ''A'', TTL = 3600, NameFQDN = ''www.example.com'', Value = ''192.0.2.1''\<rparr>,
         \<lparr>Type = ''A'', TTL = 3600, NameFQDN = ''www.example.com'', Value = ''192.0.2.2''\<rparr>]\<rparr>
     [] heap0)
   = Panic ''we got more than one resource record to create / modify''"
proof -
  let ?r1 = "\<lparr>Type = ''A'', TTL = 3600, NameFQDN = ''www.example.com'', Value = ''192.0.2.1''\<rparr>"
  let ?r2 = "\<lparr>Type = ''A'', TTL = 3600, NameFQDN = ''www.example.com'', Value = ''192.0.2.2''\<rparr>"
  let ?mx = "\<lparr>Type = ''MX'', TTL = 3600, NameFQDN = ''example.com'', Value = ''10 mail.example.com.''\<rparr>"
  let ?kw = "\<lparr>key_NameFQDN = ''www.example.com'', key_Type = ''A''\<rparr>"
  let ?ko = "\<lparr>key_NameFQDN = ''old.example.com'', key_Type = ''TXT''\<rparr>"
  let ?ext = "(plain_collaborators [(?ko, [''DELETE old'']), (?kw, [''CREATE www''])] [])
        \<lparr>recordsToNative := (\<lambda>rcs origin.
            map (\<lambda>rc. \<lparr>rr_Type = Type rc, Subname = ''www'', rr_Records = [Value rc], rr_TTL = TTL rc\<rparr>) rcs)\<rparr>"
  let ?dc = "\<lparr>Name = ''example.com'', Records = [?r1, ?r2]\<rparr>"
  have g: "GroupedByKey_spec [?r1, ?mx, ?r2] ?kw = Some [?r1, ?r2]"
    by (simp add: GroupedByKey_spec_def Key_def)
  have n: "recordsToNative_spec TrimDomainName_plain [?r1, ?r2] ''example.com''
     = [\<lparr>rr_Type = ''A'', Subname = ''www'', rr_Records = [''192.0.2.1'', ''192.0.2.2''], rr_TTL = 3600\<rparr>]"
    by (simp add: recordsToNative_spec_def Key_def TrimDomainName_plain_def)
  have a: "(?kw, [''CREATE www'']) \<in> set (ChangedGroups ?ext ?dc [])"
    by (simp add: plain_collaborators_def)
  have b: "GroupedByKey ?ext (Records ?dc) ?kw = Some [?r1, ?r2]"
    by (simp add: plain_collaborators_def GroupedByKey_spec_def Key_def)
  have c: "1 < length (recordsToNative ?ext [?r1, ?r2] (Name ?dc))"
    by (simp add: plain_collaborators_def)
  from more_than_one_native_set_aborts
         [of "[?r1, ?mx, ?r2]" ?kw "[?r1, ?r2]" TrimDomainName_plain "''example.com''"
             ?kw "[''CREATE www'']" ?ext ?dc "[]" "[?r1, ?r2]" heap0] g a b c
  have "fst (GenerateDomainCorrections ?ext ?dc [] heap0) =
        Panic ''we got more than one resource record to create / modify''"
    by simp
  with g n show ?thesis by simp
qed

text \<open>
  C9. \<^verbatim>\<open>EnsureDomainExists\<close>, after a successful refresh of the domain index: if the
  domain is in the refreshed index it returns nil and issues no creation request; if
  it is absent it issues the creation request and returns the error of that request
  unchanged; and a call made after an earlier one, for a domain that the refreshed
  index now holds, returns nil without a creation request.
\<close>

theorem EnsureDomainExists_gate:
  "(fetchDomainList rem c w = (None, c1, w1) \<and> domainIndex c1 domain \<noteq> None \<longrightarrow>
      EnsureDomainExists rem domain c w = (None, c1, w1, [FetchDomainList])) \<and>
   (fetchDomainList rem c w = (None, c1, w1) \<and> domainIndex c1 domain = None \<and>
    createDomain rem domain c1 w1 = (err, c2, w2) \<longrightarrow>
      EnsureDomainExists rem domain c w = (err, c2, w2, [FetchDomainList, CreateDomain domain])) \<and>
   (EnsureDomainExists rem domain c w = (err', c', w', reqs) \<and>
    fetchDomainList rem c' w' = (None, c'', w'') \<and> domainIndex c'' domain \<noteq> None \<longrightarrow>
      EnsureDomainExists rem domain c' w' = (None, c'', w'', [FetchDomainList]))"
  by (auto simp add: EnsureDomainExists_def)

theorem EnsureDomainExists_gate_witness:
  "EnsureDomainExists zone_remote ''example.com'' \<lparr>token = ''secret'', domainIndex = Map.empty\<rparr> [''example.org'']
   = (None,
      \<lparr>token = ''secret'', domainIndex = (\<lambda>d. if d \<in> set [''example.org''] then Some () else None)\<rparr>,
      [''example.org'', ''example.com''],
      [FetchDomainList, CreateDomain ''example.com'']) \<and>
   EnsureDomainExists zone_remote ''example.com''
      \<lparr>token = ''secret'', domainIndex = (\<lambda>d. if d \<in> set [''example.org''] then Some () else None)\<rparr>
      [''example.org'', ''example.com'']
   = (None,
      \<lparr>token = ''secret'', domainIndex = (\<lambda>d. if d \<in> set [''example.org'', ''example.com''] then Some () else None)\<rparr>,
      [''example.org'', ''example.com''],
      [FetchDomainList])"
proof -
  let ?c = "\<lparr>token = ''secret'', domainIndex = Map.empty\<rparr> :: unit api"
  let ?c1 = "\<lparr>token = ''secret'', domainIndex = (\<lambda>d. if d \<in> set [''example.org''] then Some () else None)\<rparr>"
  let ?c2 = "\<lparr>token = ''secret'', domainIndex = (\<lambda>d. if d \<in> set [''example.org'', ''example.com''] then Some () else None)\<rparr>"
  let ?w = "[''example.org'']"
  let ?w1 = "[''example.org'', ''example.com'']"
  have f1: "fetchDomainList zone_remote ?c ?w = (None, ?c1, ?w)"
    by (simp add: zone_remote_def)
  have i1: "domainIndex ?c1 ''example.com'' = None"
    by simp
  have cr: "createDomain zone_remote ''example.com'' ?c1 ?w = (None, ?c1, ?w1)"
    by (simp add: zone_remote_def)
  have f2: "fetchDomainList zone_remote ?c1 ?w1 = (None, ?c2, ?w1)"
    by (simp add: zone_remote_def)
  have i2: "domainIndex ?c2 ''example.com'' \<noteq> None"
    by simp
  note gate = EnsureDomainExists_gate
    [of zone_remote ?c ?w ?c1 ?w "''example.com''" None ?c1 ?w1 None ?c1 ?w1
       "[FetchDomainList, CreateDomain ''example.com'']" ?c2 ?w1]
  from gate have g2: "fetchDomainList zone_remote ?c ?w = (None, ?c1, ?w) \<and>
      domainIndex ?c1 ''example.com'' = None \<and>
      createDomain zone_remote ''example.com'' ?c1 ?w = (None, ?c1, ?w1) \<longrightarrow>
      EnsureDomainExists zone_remote ''example.com'' ?c ?w
       = (None, ?c1, ?w1, [FetchDomainList, CreateDomain ''example.com''])"
    by (elim conjE)
  from g2 f1 i1 cr have first:
    "EnsureDomainExists zone_remote ''example.com'' ?c ?w
       = (None, ?c1, ?w1, [FetchDomainList, CreateDomain ''example.com''])"
    by (elim impE) (intro conjI)
  from gate have g3: "EnsureDomainExists zone_remote ''example.com'' ?c ?w
       = (None, ?c1, ?w1, [FetchDomainList, CreateDomain ''example.com'']) \<and>
    fetchDomainList zone_remote ?c1 ?w1 = (None, ?c2, ?w1) \<and> domainIndex ?c2 ''example.com'' \<noteq> None \<longrightarrow>
      EnsureDomainExists zone_remote ''example.com'' ?c1 ?w1 = (None, ?c2, ?w1, [FetchDomainList])"
    by (elim conjE)
  from g3 first f2 i2 have
    "EnsureDomainExists zone_remote ''example.com'' ?c1 ?w1 = (None, ?c2, ?w1, [FetchDomainList])"
    by (elim impE) (intro conjI)
  with first show ?thesis by (intro conjI)
qed

text \<open>
  C6, as the code has it. Whatever the record list that \<^verbatim>\<open>PrepDesiredRecords\<close> iterates
  over, no record of type \<^verbatim>\<open>ALIAS\<close> is in the normalized record set, and the records of
  all other types are kept, in their order, with their type, label and value. For each
  record dropped one warning is recorded; it is the fixed text that alias records are
  not supported, without arguments, and every other warning of the pass is a TTL
  warning for a record that is kept. No warning carries the label, the type or the
  value of a dropped record.
\<close>

theorem PrepDesiredRecords_drops_alias:
  "(\<forall>rc \<in> set (Records (fst (PrepDesiredRecords ext dc))). Type rc \<noteq> ''ALIAS'') \<and>
   map (\<lambda>rc. (Type rc, NameFQDN rc, Value rc)) (Records (fst (PrepDesiredRecords ext dc))) =
     map (\<lambda>rc. (Type rc, NameFQDN rc, Value rc))
       (filter (\<lambda>rc. Type rc \<noteq> ''ALIAS'') (Records (Punycode ext dc))) \<and>
   length (filter (\<lambda>w. w = Warnf ''deSEC does not support alias records\<newline>'' [])
             (snd (PrepDesiredRecords ext dc))) =
     length (filter (\<lambda>rc. Type rc = ''ALIAS'') (Records (Punycode ext dc))) \<and>
   (\<forall>w \<in> set (snd (PrepDesiredRecords ext dc)).
      w = Warnf ''deSEC does not support alias records\<newline>'' [] \<or>
      (\<exists>rc \<in> set (Records (Punycode ext dc)). Type rc \<noteq> ''ALIAS'' \<and> w = ttl_warning rc))"
proof -
  have t: "Type (floor_ttl rc) = Type rc" "NameFQDN (floor_ttl rc) = NameFQDN rc"
    "Value (floor_ttl rc) = Value rc" for rc
    by (simp_all add: floor_ttl_def)
  have kept: "(\<forall>rc \<in> set (Records (fst (PrepDesiredRecords ext dc))). Type rc \<noteq> ''ALIAS'') \<and>
   map (\<lambda>rc. (Type rc, NameFQDN rc, Value rc)) (Records (fst (PrepDesiredRecords ext dc))) =
     map (\<lambda>rc. (Type rc, NameFQDN rc, Value rc))
       (filter (\<lambda>rc. Type rc \<noteq> ''ALIAS'') (Records (Punycode ext dc)))"
    by (simp add: PrepDesiredRecords_eq t comp_def)
  have count: "length (filter (\<lambda>w. w = alias_warning) (snd (PrepDesiredRecords ext dc))) =
     length (filter (\<lambda>rc. Type rc = ''ALIAS'') (Records (Punycode ext dc)))"
    by (simp add: PrepDesiredRecords_eq count_alias_warnings)
  have only: "\<forall>w \<in> set (snd (PrepDesiredRecords ext dc)).
      w = alias_warning \<or>
      (\<exists>rc \<in> set (Records (Punycode ext dc)). Type rc \<noteq> ''ALIAS'' \<and> w = ttl_warning rc)"
    using warnings_are_fixed_or_ttl [of _ "Records (Punycode ext dc)"]
    by (simp add: PrepDesiredRecords_eq)
  from kept count only show ?thesis
    unfolding alias_warning_def by (intro conjI) (elim conjE, assumption)+
qed

theorem PrepDesiredRecords_drops_alias_witness:
  "PrepDesiredRecords (plain_collaborators [] [])
     \<lparr>Name = ''example.com'', Records =
        [\<lparr>Type = ''A'', TTL = 7200, NameFQDN = ''www.example.com'', Value = ''192.0.2.1''\<rparr>,
         \<lparr>Type = ''ALIAS'', TTL = 7200, NameFQDN = ''example.com'', Value = ''www.example.net.''\<rparr>,
         \<lparr>Type = ''TXT'', TTL = 3600, NameFQDN = ''example.com'', Value = ''hello''\<rparr>]\<rparr>
   = (\<lparr>Name = ''example.com'', Records =
        [\<lparr>Type = ''A'', TTL = 7200, NameFQDN = ''www.example.com'', Value = ''192.0.2.1''\<rparr>,
         \<lparr>Type = ''TXT'', TTL = 3600, NameFQDN = ''example.com'', Value = ''hello''\<rparr>]\<rparr>,
      [Warnf ''deSEC does not support alias records\<newline>'' []]) \<and>
   map (\<lambda>rc. (Type rc, NameFQDN rc, Value rc))
     (Records (fst (PrepDesiredRecords (plain_collaborators [] [])
       \<lparr>Name = ''example.com'', Records =
          [\<lparr>Type = ''A'', TTL = 7200, NameFQDN = ''www.example.com'', Value = ''192.0.2.1''\<rparr>,
           \<lparr>Type = ''ALIAS'', TTL = 7200, NameFQDN = ''example.com'', Value = ''www.example.net.''\<rparr>,
           \<lparr>Type = ''TXT'', TTL = 3600, NameFQDN = ''example.com'', Value = ''hello''\<rparr>]\<rparr>)))
   = [(''A'', ''www.example.com'', ''192.0.2.1''), (''TXT'', ''example.com'', ''hello'')]"
proof -
  let ?ext = "plain_collaborators [] []"
  let ?dc = "\<lparr>Name = ''example.com'', Records =
        [\<lparr>Type = ''A'', TTL = 7200, NameFQDN = ''www.example.com'', Value = ''192.0.2.1''\<rparr>,
         \<lparr>Type = ''ALIAS'', TTL = 7200, NameFQDN = ''example.com'', Value = ''www.example.net.''\<rparr>,
         \<lparr>Type = ''TXT'', TTL = 3600, NameFQDN = ''example.com'', Value = ''hello''\<rparr>]\<rparr>"
  have run: "PrepDesiredRecords ?ext ?dc
     = (\<lparr>Name = ''example.com'', Records =
        [\<lparr>Type = ''A'', TTL = 7200, NameFQDN = ''www.example.com'', Value = ''192.0.2.1''\<rparr>,
         \<lparr>Type = ''TXT'', TTL = 3600, NameFQDN = ''example.com'', Value = ''hello''\<rparr>]\<rparr>,
      [Warnf ''deSEC does not support alias records\<newline>'' []])"
    by (simp add: PrepDesiredRecords_def plain_collaborators_def alias_warning_def)
  from PrepDesiredRecords_drops_alias [of ?ext ?dc]
  have "map (\<lambda>rc. (Type rc, NameFQDN rc, Value rc)) (Records (fst (PrepDesiredRecords ?ext ?dc))) =
     map (\<lambda>rc. (Type rc, NameFQDN rc, Value rc))
       (filter (\<lambda>rc. Type rc \<noteq> ''ALIAS'') (Records (Punycode ?ext ?dc)))"
    by (elim conjE)
  then have "map (\<lambda>rc. (Type rc, NameFQDN rc, Value rc)) (Records (fst (PrepDesiredRecords ?ext ?dc)))
     = [(''A'', ''www.example.com'', ''192.0.2.1''), (''TXT'', ''example.com'', ''hello'')]"
    by (simp add: plain_collaborators_def)
  with run show ?thesis by (intro conjI)
qed

text \<open>
  C6 as stated has a warning that identifies the drop. Two configurations that drop
  different \<^verbatim>\<open>ALIAS\<close> records, at different labels and with different targets, record
  the same warning, a constant text.
\<close>

theorem alias_warning_is_constant_counterexample:
  "snd (PrepDesiredRecords (plain_collaborators [] [])
     \<lparr>Name = ''example.com'', Records =
        [\<lparr>Type = ''ALIAS'', TTL = 7200, NameFQDN = ''example.com'', Value = ''www.example.net.''\<rparr>]\<rparr>)
   = [Warnf ''deSEC does not support alias records\<newline>'' []] \<and>
   snd (PrepDesiredRecords (plain_collaborators [] [])
     \<lparr>Name = ''example.com'', Records =
        [\<lparr>Type = ''ALIAS'', TTL = 3600, NameFQDN = ''shop.example.com'', Value = ''cdn.example.org.''\<rparr>]\<rparr>)
   = [Warnf ''deSEC does not support alias records\<newline>'' []]"
  by (simp add: PrepDesiredRecords_def plain_collaborators_def alias_warning_def)

text \<open>
  C3, as the code has it. Let \<open>kept\<close> be the records that are not dropped. After
  \<^verbatim>\<open>PrepDesiredRecords\<close> every kept record that had a TTL below 3600 has TTL 3600 and is
  otherwise unchanged, records of type \<^verbatim>\<open>NS\<close> included; the warning for it is recorded
  when its type is not \<^verbatim>\<open>NS\<close> and is not recorded when its type is \<^verbatim>\<open>NS\<close>; a record
  with a TTL of at least 3600 is unchanged.
\<close>

theorem PrepDesiredRecords_ttl_floor:
  assumes "kept = filter (\<lambda>rc. Type rc \<noteq> ''ALIAS'') (Records (Punycode ext dc))"
  shows "length (Records (fst (PrepDesiredRecords ext dc))) = length kept \<and>
   (\<forall>i < length kept.
      (TTL (kept ! i) < 3600 \<longrightarrow>
         Records (fst (PrepDesiredRecords ext dc)) ! i = (kept ! i)\<lparr>TTL := 3600\<rparr> \<and>
         (Type (kept ! i) \<noteq> ''NS'' \<longrightarrow> ttl_warning (kept ! i) \<in> set (snd (PrepDesiredRecords ext dc))) \<and>
         (Type (kept ! i) = ''NS'' \<longrightarrow> ttl_warning (kept ! i) \<notin> set (snd (PrepDesiredRecords ext dc)))) \<and>
      (3600 \<le> TTL (kept ! i) \<longrightarrow>
         Records (fst (PrepDesiredRecords ext dc)) ! i = kept ! i))"
proof -
  let ?rs = "Records (Punycode ext dc)"
  let ?out = "Records (fst (PrepDesiredRecords ext dc))"
  let ?ws = "snd (PrepDesiredRecords ext dc)"
  have out: "?out = map floor_ttl kept"
    using assms by (simp add: PrepDesiredRecords_eq)
  have ws: "?ws = concat (map warnings_of ?rs)"
    by (simp add: PrepDesiredRecords_eq)
  have len: "length ?out = length kept"
    by (simp add: out)
  have each: "(TTL (kept ! i) < 3600 \<longrightarrow>
         ?out ! i = (kept ! i)\<lparr>TTL := 3600\<rparr> \<and>
         (Type (kept ! i) \<noteq> ''NS'' \<longrightarrow> ttl_warning (kept ! i) \<in> set ?ws) \<and>
         (Type (kept ! i) = ''NS'' \<longrightarrow> ttl_warning (kept ! i) \<notin> set ?ws)) \<and>
      (3600 \<le> TTL (kept ! i) \<longrightarrow> ?out ! i = kept ! i)" if i: "i < length kept" for i
  proof -
    have "kept ! i \<in> set kept" using i by simp
    then have mem: "kept ! i \<in> set ?rs" and na: "Type (kept ! i) \<noteq> ''ALIAS''"
      using assms by simp_all
    have nth: "?out ! i = floor_ttl (kept ! i)"
      using i by (simp add: out)
    have w1: "ttl_warning (kept ! i) \<in> set ?ws" if "TTL (kept ! i) < 3600" "Type (kept ! i) \<noteq> ''NS''"
      unfolding ws using warnings_has_ttl [OF mem na that] .
    have w2: "ttl_warning (kept ! i) \<notin> set ?ws" if "Type (kept ! i) = ''NS''"
      unfolding ws using warnings_no_NS [of "kept ! i" ?rs] that by blast
    show ?thesis using w1 w2 unfolding nth by (simp add: floor_ttl_def)
  qed
  show ?thesis using len each by blast
qed

theorem PrepDesiredRecords_ttl_floor_witness:
  "PrepDesiredRecords (plain_collaborators [] [])
     \<lparr>Name = ''example.com'', Records =
        [\<lparr>Type = ''A'', TTL = 60, NameFQDN = ''example.com'', Value = ''1.2.3.4''\<rparr>,
         \<lparr>Type = ''ALIAS'', TTL = 60, NameFQDN = ''example.com'', Value = ''www.example.net.''\<rparr>,
         \<lparr>Type = ''NS'', TTL = 300, NameFQDN = ''example.com'', Value = ''ns1.desec.io.''\<rparr>,
         \<lparr>Type = ''TXT'', TTL = 7200, NameFQDN = ''example.com'', Value = ''hello''\<rparr>]\<rparr>
   = (\<lparr>Name = ''example.com'', Records =
        [\<lparr>Type = ''A'', TTL = 3600, NameFQDN = ''example.com'', Value = ''1.2.3.4''\<rparr>,
         \<lparr>Type = ''NS'', TTL = 3600, NameFQDN = ''example.com'', Value = ''ns1.desec.io.''\<rparr>,
         \<lparr>Type = ''TXT'', TTL = 7200, NameFQDN = ''example.com'', Value = ''hello''\<rparr>]\<rparr>,
      [ttl_warning \<lparr>Type = ''A'', TTL = 60, NameFQDN = ''example.com'', Value = ''1.2.3.4''\<rparr>,
       alias_warning]) \<and>
   length (Records (fst (PrepDesiredRecords (plain_collaborators [] [])
     \<lparr>Name = ''example.com'', Records =
        [\<lparr>Type = ''A'', TTL = 60, NameFQDN = ''example.com'', Value = ''1.2.3.4''\<rparr>,
         \<lparr>Type = ''ALIAS'', TTL = 60, NameFQDN = ''example.com'', Value = ''www.example.net.''\<rparr>,
         \<lparr>Type = ''NS'', TTL = 300, NameFQDN = ''example.com'', Value = ''ns1.desec.io.''\<rparr>,
         \<lparr>Type = ''TXT'', TTL = 7200, NameFQDN = ''example.com'', Value = ''hello''\<rparr>]\<rparr>))) = 3"
proof -
  let ?a = "\<lparr>Type = ''A'', TTL = 60, NameFQDN = ''example.com'', Value = ''1.2.3.4''\<rparr>"
  let ?al = "\<lparr>Type = ''ALIAS'', TTL = 60, NameFQDN = ''example.com'', Value = ''www.example.net.''\<rparr>"
  let ?ns = "\<lparr>Type = ''NS'', TTL = 300, NameFQDN = ''example.com'', Value = ''ns1.desec.io.''\<rparr>"
  let ?txt = "\<lparr>Type = ''TXT'', TTL = 7200, NameFQDN = ''example.com'', Value = ''hello''\<rparr>"
  let ?ext = "plain_collaborators [] []"
  let ?dc = "\<lparr>Name = ''example.com'', Records = [?a, ?al, ?ns, ?txt]\<rparr>"
  have kept: "[?a, ?ns, ?txt] = filter (\<lambda>rc. Type rc \<noteq> ''ALIAS'') (Records (Punycode ?ext ?dc))"
    by (simp add: plain_collaborators_def)
  have run: "PrepDesiredRecords ?ext ?dc
     = (\<lparr>Name = ''example.com'', Records = [?a\<lparr>TTL := 3600\<rparr>, ?ns\<lparr>TTL := 3600\<rparr>, ?txt]\<rparr>,
        [ttl_warning ?a, alias_warning])"
    by (simp add: PrepDesiredRecords_def plain_collaborators_def)
  from PrepDesiredRecords_ttl_floor [OF kept]
  have "length (Records (fst (PrepDesiredRecords ?ext ?dc))) = length [?a, ?ns, ?txt]"
    by (elim conjE)
  with run show ?thesis by simp
qed

text \<open>
  C3 as stated exempts the delegation type from the minimum TTL. An \<^verbatim>\<open>NS\<close> record with
  TTL 300 leaves \<^verbatim>\<open>PrepDesiredRecords\<close> with TTL 3600; only the warning is omitted.
\<close>

theorem NS_ttl_is_raised_counterexample:
  "map TTL (Records (fst (PrepDesiredRecords (plain_collaborators [] [])
     \<lparr>Name = ''example.com'', Records =
        [\<lparr>Type = ''NS'', TTL = 300, NameFQDN = ''example.com'', Value = ''ns1.desec.io.''\<rparr>]\<rparr>)))
   = [3600] \<and>
   snd (PrepDesiredRecords (plain_collaborators [] [])
     \<lparr>Name = ''example.com'', Records =
        [\<lparr>Type = ''NS'', TTL = 300, NameFQDN = ''example.com'', Value = ''ns1.desec.io.''\<rparr>]\<rparr>)
   = []"
  by (simp add: PrepDesiredRecords_def plain_collaborators_def)

text \<open>
  C1 asks that the delete action of the correction emitted for a key, when it runs
  later, issues the delete request for the (subname, type) of that key, also when
  several groups are deleted in one pass. The closure reads the loop variable when it
  runs, and by then the loop has finished (lemma \<open>delete_actions_read_last_key\<close>). With
  two deleted keys, \<^verbatim>\<open>a.example.com\<close> of type A and \<^verbatim>\<open>b.example.com\<close> of type TXT, both
  delete actions issue the request for the key visited last, in either order of the
  iteration over the map: the other key is never deleted.
\<close>

theorem delete_action_targets_last_visited_key:
  "planned_effects
     (plain_collaborators
        [(\<lparr>key_NameFQDN = ''a.example.com'', key_Type = ''A''\<rparr>, [''DELETE a'']),
         (\<lparr>key_NameFQDN = ''b.example.com'', key_Type = ''TXT''\<rparr>, [''DELETE b''])] [])
     \<lparr>Name = ''example.com'', Records = []\<rparr> [] heap0
   = Return
       [(''DELETE a'', Calls (deleteRR \<lparr>rr_Type = ''TXT'', Subname = ''b'', rr_Records = [], rr_TTL = 0\<rparr> ''example.com'')),
        (''DELETE b'', Calls (deleteRR \<lparr>rr_Type = ''TXT'', Subname = ''b'', rr_Records = [], rr_TTL = 0\<rparr> ''example.com''))] \<and>
   planned_effects
     (plain_collaborators
        [(\<lparr>key_NameFQDN = ''b.example.com'', key_Type = ''TXT''\<rparr>, [''DELETE b'']),
         (\<lparr>key_NameFQDN = ''a.example.com'', key_Type = ''A''\<rparr>, [''DELETE a''])] [])
     \<lparr>Name = ''example.com'', Records = []\<rparr> [] heap0
   = Return
       [(''DELETE b'', Calls (deleteRR \<lparr>rr_Type = ''A'', Subname = ''a'', rr_Records = [], rr_TTL = 0\<rparr> ''example.com'')),
        (''DELETE a'', Calls (deleteRR \<lparr>rr_Type = ''A'', Subname = ''a'', rr_Records = [], rr_TTL = 0\<rparr> ''example.com''))]"
  by (simp add: planned_effects_def GenerateDomainCorrections_def plain_collaborators_def
      GroupedByKey_spec_def new_var_def heap0_def assign_def deref_def TrimDomainName_plain_def)

text \<open>
  C5 asks that the subname passed to the delete request is the name of the changed key
  with the zone suffix stripped, the apex giving the empty string. The translation of
  a name is as the claim says (lemma \<open>delete_subname_never_marker\<close>: the marker \<open>@\<close> is
  never passed on), but it is applied to the key the loop visited last. With the apex
  \<^verbatim>\<open>example.com\<close> and \<^verbatim>\<open>www.example.com\<close> both deleted, the action emitted for the apex
  passes the subname \<open>www\<close> when the apex is visited first, and the action emitted for
  \<^verbatim>\<open>www.example.com\<close> passes the empty subname when the apex is visited last.
\<close>

theorem apex_delete_gets_subname_of_last_visited_key:
  "planned_effects
     (plain_collaborators
        [(\<lparr>key_NameFQDN = ''example.com'', key_Type = ''MX''\<rparr>, [''DELETE apex'']),
         (\<lparr>key_NameFQDN = ''www.example.com'', key_Type = ''MX''\<rparr>, [''DELETE www''])] [])
     \<lparr>Name = ''example.com'', Records = []\<rparr> [] heap0
   = Return
       [(''DELETE apex'', Calls (deleteRR \<lparr>rr_Type = ''MX'', Subname = ''www'', rr_Records = [], rr_TTL = 0\<rparr> ''example.com'')),
        (''DELETE www'', Calls (deleteRR \<lparr>rr_Type = ''MX'', Subname = ''www'', rr_Records = [], rr_TTL = 0\<rparr> ''example.com''))] \<and>
   planned_effects
     (plain_collaborators
        [(\<lparr>key_NameFQDN = ''www.example.com'', key_Type = ''MX''\<rparr>, [''DELETE www'']),
         (\<lparr>key_NameFQDN = ''example.com'', key_Type = ''MX''\<rparr>, [''DELETE apex''])] [])
     \<lparr>Name = ''example.com'', Records = []\<rparr> [] heap0
   = Return
       [(''DELETE www'', Calls (deleteRR \<lparr>rr_Type = ''MX'', Subname = [], rr_Records = [], rr_TTL = 0\<rparr> ''example.com'')),
        (''DELETE apex'', Calls (deleteRR \<lparr>rr_Type = ''MX'', Subname = [], rr_Records = [], rr_TTL = 0\<rparr> ''example.com''))]"
  by (simp add: planned_effects_def GenerateDomainCorrections_def plain_collaborators_def
      GroupedByKey_spec_def new_var_def heap0_def assign_def deref_def TrimDomainName_plain_def)

end
